theory Spec2Isabelle
  imports Main
begin

section \<open>Python values used by the orchestration layer\<close>

text \<open>
  A Python \<open>str\<close> is a sequence of Unicode code points, so it is modelled as a list of
  natural numbers. \<open>ascii\<close> turns an Isabelle string literal into such a list; the
  pictographs of the source's literals are written out as their code points.
\<close>

type_synonym pystr = "nat list"

definition ascii :: "string \<Rightarrow> pystr" where
  "ascii = map of_char"

text \<open>
  \<open>str.lower()\<close>, on the ASCII range: \<open>A\<close>..\<open>Z\<close> go to \<open>a\<close>..\<open>z\<close>, every other code point
  is kept. No theorem below that speaks about all queries depends on how a code point is
  lowered.
\<close>

definition lower_cp :: "nat \<Rightarrow> nat" where
  "lower_cp c = (if 65 \<le> c \<and> c \<le> 90 then c + 32 else c)"

definition lower :: "pystr \<Rightarrow> pystr" where
  "lower = map lower_cp"

text \<open>\<open>q.startswith(w)\<close> and the substring test \<open>w in q\<close>.\<close>

fun startswith :: "pystr \<Rightarrow> pystr \<Rightarrow> bool" where
  "startswith q [] = True"
| "startswith [] (w # ws) = False"
| "startswith (c # cs) (w # ws) = (c = w \<and> startswith cs ws)"

fun str_in :: "pystr \<Rightarrow> pystr \<Rightarrow> bool" where
  "str_in w [] = (w = [])"
| "str_in w (c # cs) = (startswith (c # cs) w \<or> str_in w cs)"

text \<open>\<open>any(word in query for word in words)\<close>.\<close>

definition any_word_in :: "pystr list \<Rightarrow> pystr \<Rightarrow> bool" where
  "any_word_in words query = list_ex (\<lambda>word. str_in word query) words"

text \<open>
  The code points \<open>str.strip()\<close> removes at both ends (CPython's Unicode whitespace),
  and \<open>strip\<close> itself.
\<close>

definition isspace :: "nat \<Rightarrow> bool" where
  "isspace c \<longleftrightarrow>
     (0x09 \<le> c \<and> c \<le> 0x0D) \<or> (0x1C \<le> c \<and> c \<le> 0x20) \<or> c = 0x85 \<or> c = 0xA0 \<or>
     c = 0x1680 \<or> (0x2000 \<le> c \<and> c \<le> 0x200A) \<or> c = 0x2028 \<or> c = 0x2029 \<or>
     c = 0x202F \<or> c = 0x205F \<or> c = 0x3000"

definition strip :: "pystr \<Rightarrow> pystr" where
  "strip q = rev (dropWhile isspace (rev (dropWhile isspace q)))"

section \<open>The agent labels and the keyword lists\<close>

definition CLIMATE_AGENT :: pystr where
  "CLIMATE_AGENT = [0x1F326, 0xFE0F] @ ascii '' Climate Agent''"

definition AGRICULTURE_AGENT :: pystr where
  "AGRICULTURE_AGENT = [0x1F33E] @ ascii '' Agriculture Agent''"

definition SCHEME_AGENT :: pystr where
  "SCHEME_AGENT = [0x1F9FE] @ ascii '' Scheme Agent''"

definition KCC_AGENT :: pystr where
  "KCC_AGENT = [0x260E, 0xFE0F] @ ascii '' KCC Agent''"

definition AUTO_DETECT :: pystr where
  "AUTO_DETECT = ascii ''Auto Detect''"

definition climate_words :: "pystr list" where
  "climate_words = map ascii [''rain'', ''temperature'', ''climate'', ''weather'']"

definition agriculture_words :: "pystr list" where
  "agriculture_words =
     map ascii [''crop'', ''yield'', ''price'', ''production'', ''agriculture'']"

definition scheme_words :: "pystr list" where
  "scheme_words = map ascii [''scheme'', ''pmkisan'', ''subsidy'', ''beneficiary'']"

definition helpline_words :: "pystr list" where
  "helpline_words = map ascii [''kcc'', ''helpline'', ''call centre'']"

section \<open>Auto agent detection\<close>

text \<open>\<open>auto_select_agent\<close> of app.py: the last branch falls back to the agriculture agent.\<close>

definition auto_select_agent :: "pystr \<Rightarrow> pystr" where
  "auto_select_agent user_query =
     (let query = lower user_query in
      if any_word_in climate_words query then CLIMATE_AGENT
      else if any_word_in agriculture_words query then AGRICULTURE_AGENT
      else if any_word_in scheme_words query then SCHEME_AGENT
      else if any_word_in helpline_words query then KCC_AGENT
      else AGRICULTURE_AGENT)"


section \<open>Exceptions, agents, configuration and the outside world\<close>

text \<open>
  The exceptions the handlers of the source tell apart. Every one of them derives from
  Python's \<open>Exception\<close>; \<open>str_exn\<close> is \<open>str(e)\<close>. A computation that may raise returns
  \<open>exn + 'a\<close>, with \<open>Inl\<close> for the raised exception.
\<close>

datatype exn = AttributeError pystr | OSError pystr | Exception pystr

fun str_exn :: "exn \<Rightarrow> pystr" where
  "str_exn (AttributeError m) = m"
| "str_exn (OSError m) = m"
| "str_exn (Exception m) = m"

text \<open>
  An agent object as the orchestration layer sees it: its identity, its class name, its
  truth value (\<open>if agent:\<close>) and which of the two retrieval methods it has.
\<close>

record agent =
  ident :: nat
  cls :: pystr
  truthy :: bool
  has_retrieve_context :: bool
  has_run :: bool

text \<open>The truth value of what a builder returned: \<open>None\<close> is false.\<close>

definition is_truthy :: "agent option \<Rightarrow> bool" where
  "is_truthy v = (case v of None \<Rightarrow> False | Some a \<Rightarrow> truthy a)"

text \<open>The truth value of an optional string: \<open>None\<close> and the empty string are false.\<close>

definition str_truthy :: "pystr option \<Rightarrow> bool" where
  "str_truthy v = (case v of None \<Rightarrow> False | Some t \<Rightarrow> t \<noteq> [])"

text \<open>\<open>v or d\<close> for an optional string \<open>v\<close>.\<close>

definition or_else :: "pystr option \<Rightarrow> pystr \<Rightarrow> pystr" where
  "or_else v d = (if str_truthy v then the v else d)"

text \<open>The message of the \<open>AttributeError\<close> raised by \<open>agent.attr\<close> when \<open>attr\<close> is missing.\<close>

definition no_attribute :: "agent \<Rightarrow> pystr \<Rightarrow> pystr" where
  "no_attribute a attr =
     [39] @ cls a @ [39] @ ascii '' object has no attribute '' @ [39] @ attr @ [39]"

text \<open>An uploaded file object: its \<open>name\<close> and what \<open>read()\<close> returns at this call.\<close>

record uploaded =
  file_name :: pystr
  file_data :: "nat list"

text \<open>\<open>os.path.basename\<close>: what follows the last slash.\<close>

definition basename :: "pystr \<Rightarrow> pystr" where
  "basename p = rev (takeWhile (\<lambda>c. c \<noteq> 47) (rev p))"

text \<open>The module constants read from config.yaml that the modelled functions use.\<close>

record config =
  DATA_GOV_API_KEY :: "pystr option"
  CHAT_MODEL :: pystr

datatype builder =
  build_climate_agent | build_agriculture_agent | build_scheme_agent | build_kcc_agent

text \<open>
  What the external collaborators do during one call of a modelled function: saving
  the uploaded file (\<open>os.makedirs\<close>, \<open>open\<close>, \<open>read\<close>, \<open>write\<close>; the result is \<open>None\<close> when
  none of them raises), the four builders, the two retrieval methods of an agent, and
  the generation service (\<open>GenerativeModel(model).generate_content(prompt).text\<close>, which
  is \<open>None\<close> or a string when nothing is raised). Each modelled function calls each of
  them at most once.
\<close>

record env =
  call_write :: "pystr \<Rightarrow> nat list \<Rightarrow> exn option"
  call_build :: "builder \<Rightarrow> pystr \<Rightarrow> exn + agent option"
  call_retrieve_context :: "agent \<Rightarrow> pystr \<Rightarrow> exn + pystr"
  call_run :: "agent \<Rightarrow> pystr \<Rightarrow> exn + pystr"
  call_generate_content :: "pystr \<Rightarrow> pystr \<Rightarrow> exn + pystr option"

text \<open>
  The calls made so far, oldest first: each call to an external collaborator, each call
  of the classifier by the chat handler, and each message main_app.py shows through
  Streamlit.
\<close>

datatype event =
    Write pystr "nat list"
  | Build builder pystr
  | Classify pystr
  | RetrieveContext nat pystr
  | Run nat pystr
  | Generate pystr pystr
  | Notify pystr

text \<open>The process state: the module-level \<open>agent_cache\<close> dictionary and the calls so far.\<close>

record state =
  agent_cache :: "pystr \<rightharpoonup> agent"
  trace :: "event list"

definition record_call :: "event \<Rightarrow> state \<Rightarrow> state" where
  "record_call ev s = s\<lparr>trace := trace s @ [ev]\<rparr>"

fun is_build :: "event \<Rightarrow> bool" where
  "is_build (Build b p) = True"
| "is_build ev = False"

fun is_write :: "event \<Rightarrow> bool" where
  "is_write (Write p d) = True"
| "is_write ev = False"

definition builds :: "state \<Rightarrow> nat" where
  "builds s = length (filter is_build (trace s))"

definition writes :: "state \<Rightarrow> nat" where
  "writes s = length (filter is_write (trace s))"

section \<open>The agent cache of app.py\<close>

text \<open>\<open>temp_path\<close> of \<open>get_agent\<close>: \<open>None\<close> without an upload, else \<open>data/<basename>\<close>.\<close>

definition temp_path_of :: "uploaded option \<Rightarrow> pystr option" where
  "temp_path_of uploaded_file =
     (case uploaded_file of
        None \<Rightarrow> None
      | Some f \<Rightarrow> Some (ascii ''data/'' @ basename (file_name f)))"

text \<open>\<open>cache_key = f"{agent_choice}_{temp_path or 'default'}"\<close>.\<close>

definition cache_key_of :: "pystr \<Rightarrow> pystr option \<Rightarrow> pystr" where
  "cache_key_of agent_choice temp_path =
     agent_choice @ ascii ''_'' @ or_else temp_path (ascii ''default'')"

text \<open>Lines 47 to 51: the uploaded file, when there is one, is written to \<open>temp_path\<close>.\<close>

definition save_upload :: "env \<Rightarrow> uploaded option \<Rightarrow> state \<Rightarrow> exn option \<times> state" where
  "save_upload e uploaded_file s =
     (case uploaded_file of
        None \<Rightarrow> (None, s)
      | Some f \<Rightarrow>
          (call_write e (the (temp_path_of uploaded_file)) (file_data f),
           record_call (Write (the (temp_path_of uploaded_file)) (file_data f)) s))"

definition invoke_builder ::
  "env \<Rightarrow> builder \<Rightarrow> pystr \<Rightarrow> state \<Rightarrow> (exn + agent option) \<times> state" where
  "invoke_builder e b arg s = (call_build e b arg, record_call (Build b arg) s)"

text \<open>Lines 58 to 67: the chain that picks the builder.\<close>

definition build_choice ::
  "config \<Rightarrow> env \<Rightarrow> pystr \<Rightarrow> pystr option \<Rightarrow> state \<Rightarrow> (exn + agent option) \<times> state" where
  "build_choice cfg e agent_choice temp_path s =
     (if agent_choice = CLIMATE_AGENT then
        invoke_builder e build_climate_agent
          (or_else temp_path (ascii ''data/Mean_Temp_IMD_2017.csv'')) s
      else if agent_choice = AGRICULTURE_AGENT then
        invoke_builder e build_agriculture_agent
          (or_else temp_path (ascii
            ''data/Current Daily Price of Various Commodities from Various Markets (Mandi).csv'')) s
      else if agent_choice = SCHEME_AGENT then
        invoke_builder e build_scheme_agent
          (or_else temp_path (ascii ''data/GetPMKisanDatagov.json'')) s
      else if agent_choice = KCC_AGENT then
        (if str_truthy (DATA_GOV_API_KEY cfg)
         then invoke_builder e build_kcc_agent (the (DATA_GOV_API_KEY cfg)) s
         else (Inr None, s))
      else (Inr None, s))"

text \<open>Lines 69 to 72: a truthy agent is stored under the key; the agent is returned.\<close>

definition store_agent ::
  "pystr \<Rightarrow> (exn + agent option) \<times> state \<Rightarrow> (exn + agent option) \<times> state" where
  "store_agent cache_key r =
     (case r of
        (Inl x, s) \<Rightarrow> (Inl x, s)
      | (Inr agent, s) \<Rightarrow>
          (Inr agent,
           if is_truthy agent
           then s\<lparr>agent_cache := (agent_cache s)(cache_key \<mapsto> the agent)\<rparr>
           else s))"

definition get_agent ::
  "config \<Rightarrow> env \<Rightarrow> pystr \<Rightarrow> uploaded option \<Rightarrow> state \<Rightarrow> (exn + agent option) \<times> state" where
  "get_agent cfg e agent_choice uploaded_file s =
     (let temp_path = temp_path_of uploaded_file in
      case save_upload e uploaded_file s of
        (Some x, s1) \<Rightarrow> (Inl x, s1)
      | (None, s1) \<Rightarrow>
          (let cache_key = cache_key_of agent_choice temp_path in
           case agent_cache s1 cache_key of
             Some a \<Rightarrow> (Inr (Some a), s1)
           | None \<Rightarrow> store_agent cache_key (build_choice cfg e agent_choice temp_path s1)))"

section \<open>The agent initialiser of main_app.py\<close>


section \<open>The Gemini response helper of app.py\<close>

definition NO_RESPONSE :: pystr where
  "NO_RESPONSE = [0x26A0, 0xFE0F] @ ascii '' No response generated.''"

definition ERROR_MARK :: pystr where
  "ERROR_MARK = [0x274C]"

definition full_prompt :: "pystr \<Rightarrow> pystr \<Rightarrow> pystr" where
  "full_prompt prompt context =
     ascii ''\<newline>You are an AI assistant for smart agriculture - KrishiSutra.\<newline>'' @
     ascii ''Use the following context to answer the question accurately.\<newline>\<newline>'' @
     ascii ''Context:\<newline>'' @ context @
     ascii ''\<newline>\<newline>Question:\<newline>'' @ prompt @
     ascii ''\<newline>\<newline>Provide a concise, factual, and human-readable answer.\<newline>''"

text \<open>The \<open>try\<close> block of \<open>gemini_answer\<close> (lines 98 to 112).\<close>

definition gemini_try ::
  "config \<Rightarrow> env \<Rightarrow> pystr \<Rightarrow> pystr \<Rightarrow> state \<Rightarrow> (exn + pystr) \<times> state" where
  "gemini_try cfg e prompt context s =
     (case call_generate_content e (CHAT_MODEL cfg) (full_prompt prompt context) of
        Inl x \<Rightarrow> Inl x
      | Inr response_text \<Rightarrow> Inr (or_else response_text NO_RESPONSE),
      record_call (Generate (CHAT_MODEL cfg) (full_prompt prompt context)) s)"

text \<open>\<open>gemini_answer\<close>: the \<open>try\<close> block under \<open>except Exception as e\<close> (lines 113, 114).\<close>

definition gemini_answer ::
  "config \<Rightarrow> env \<Rightarrow> pystr \<Rightarrow> pystr \<Rightarrow> state \<Rightarrow> (exn + pystr) \<times> state" where
  "gemini_answer cfg e prompt context s =
     (case gemini_try cfg e prompt context s of
        (Inl x, s1) \<Rightarrow> (Inr (ERROR_MARK @ ascii '' Error: '' @ str_exn x), s1)
      | (Inr answer, s1) \<Rightarrow> (Inr answer, s1))"

section \<open>Context retrieval\<close>

text \<open>
  The method calls \<open>qa_agent.retrieve_context(user_query)\<close> and \<open>qa_agent.run(user_query)\<close>:
  looking up a method the agent does not have raises \<open>AttributeError\<close>.
\<close>

definition invoke_retrieve_context ::
  "env \<Rightarrow> agent \<Rightarrow> pystr \<Rightarrow> state \<Rightarrow> (exn + pystr) \<times> state" where
  "invoke_retrieve_context e qa_agent user_query s =
     (if has_retrieve_context qa_agent
      then (call_retrieve_context e qa_agent user_query,
            record_call (RetrieveContext (ident qa_agent) user_query) s)
      else (Inl (AttributeError (no_attribute qa_agent (ascii ''retrieve_context''))), s))"

definition invoke_run ::
  "env \<Rightarrow> agent \<Rightarrow> pystr \<Rightarrow> state \<Rightarrow> (exn + pystr) \<times> state" where
  "invoke_run e qa_agent user_query s =
     (if has_run qa_agent
      then (call_run e qa_agent user_query, record_call (Run (ident qa_agent) user_query) s)
      else (Inl (AttributeError (no_attribute qa_agent (ascii ''run''))), s))"

text \<open>The \<open>try\<close> block of step 3 of \<open>chat_handler\<close> in app.py (lines 141 to 144).\<close>

definition retrieve_try ::
  "env \<Rightarrow> agent \<Rightarrow> pystr \<Rightarrow> state \<Rightarrow> (exn + pystr) \<times> state" where
  "retrieve_try e qa_agent user_query s =
     (if has_retrieve_context qa_agent
      then invoke_retrieve_context e qa_agent user_query s
      else invoke_run e qa_agent user_query s)"

text \<open>
  Step 3 of main_app.py (lines 196 to 200): \<open>retrieve_context\<close> is called, and \<open>run\<close> is
  called when that raised \<open>AttributeError\<close>; nothing else is caught.
\<close>

definition main_app_retrieve ::
  "env \<Rightarrow> agent \<Rightarrow> pystr \<Rightarrow> state \<Rightarrow> (exn + pystr) \<times> state" where
  "main_app_retrieve e qa_agent user_query s =
     (case invoke_retrieve_context e qa_agent user_query s of
        (Inl (AttributeError m), s1) \<Rightarrow> invoke_run e qa_agent user_query s1
      | (Inl x, s1) \<Rightarrow> (Inl x, s1)
      | (Inr context, s1) \<Rightarrow> (Inr context, s1))"

section \<open>The chat handler of app.py\<close>

type_synonym history = "(pystr \<times> pystr) list"

definition chat_handler ::
  "config \<Rightarrow> env \<Rightarrow> pystr \<Rightarrow> pystr \<Rightarrow> uploaded option \<Rightarrow> history \<Rightarrow> state
     \<Rightarrow> (exn + history \<times> pystr) \<times> state" where
  "chat_handler cfg e user_query agent_choice uploaded_file chat_history s =
     (if user_query = [] \<or> strip user_query = [] then (Inr (chat_history, []), s)
      else
        (let selected_agent =
               (if agent_choice = AUTO_DETECT then auto_select_agent user_query
                else agent_choice);
             s0 = (if agent_choice = AUTO_DETECT then record_call (Classify user_query) s
                   else s) in
         case get_agent cfg e selected_agent uploaded_file s0 of
           (Inl x, s1) \<Rightarrow> (Inl x, s1)
         | (Inr qa_agent, s1) \<Rightarrow>
             if \<not> is_truthy qa_agent then
               (Inr (chat_history @
                       [(user_query,
                         ERROR_MARK @ ascii '' Failed to initialize '' @ selected_agent)],
                     []), s1)
             else
               (case retrieve_try e (the qa_agent) user_query s1 of
                  (Inl x, s2) \<Rightarrow>
                    (Inr (chat_history @
                            [(user_query,
                              ERROR_MARK @ ascii '' Error retrieving context: '' @ str_exn x)],
                          []), s2)
                | (Inr context, s2) \<Rightarrow>
                    (case gemini_answer cfg e user_query context s2 of
                       (Inl x, s3) \<Rightarrow> (Inl x, s3)
                     | (Inr final_answer, s3) \<Rightarrow>
                         (Inr (chat_history @ [(user_query, final_answer)], []), s3)))))"

section \<open>Notions used in the statements\<close>


text \<open>A lookup failed: it raised, or what it returned is false (\<open>None\<close> or a falsy object).\<close>

definition failed :: "exn + agent option \<Rightarrow> bool" where
  "failed r = (case r of Inl x \<Rightarrow> True | Inr agent \<Rightarrow> \<not> is_truthy agent)"

text \<open>The chain of \<open>get_agent\<close> reaches a builder call for this choice.\<close>

definition has_builder :: "config \<Rightarrow> pystr \<Rightarrow> bool" where
  "has_builder cfg agent_choice \<longleftrightarrow>
     agent_choice = CLIMATE_AGENT \<or> agent_choice = AGRICULTURE_AGENT \<or>
     agent_choice = SCHEME_AGENT \<or>
     (agent_choice = KCC_AGENT \<and> str_truthy (DATA_GOV_API_KEY cfg))"

text \<open>
  The state at start-up (\<open>agent_cache = {}\<close>), and the states the process can be in:
  those that calls of \<open>chat_handler\<close> and \<open>get_agent\<close> lead to, whatever the arguments
  and whatever the outside world does, with any further calls recorded.
\<close>

definition initial_state :: state where
  "initial_state = \<lparr>agent_cache = Map.empty, trace = []\<rparr>"

inductive reachable :: "config \<Rightarrow> state \<Rightarrow> bool" for cfg :: config where
  start: "reachable cfg initial_state"
| recorded: "reachable cfg s \<Longrightarrow> reachable cfg (record_call ev s)"
| lookup: "reachable cfg s \<Longrightarrow> reachable cfg (snd (get_agent cfg e agent_choice uploaded_file s))"
| chat: "reachable cfg s \<Longrightarrow>
         reachable cfg (snd (chat_handler cfg e user_query agent_choice uploaded_file chat_history s))"

text \<open>
  What holds of the cache in every such state: a stored agent is truthy, and it is stored
  under the key of a choice that has a builder.
\<close>

definition cache_ok :: "config \<Rightarrow> state \<Rightarrow> bool" where
  "cache_ok cfg s \<longleftrightarrow>
     (\<forall>k a. agent_cache s k = Some a \<longrightarrow>
        truthy a \<and> (\<exists>c tp. k = cache_key_of c tp \<and> has_builder cfg c))"

text \<open>The guard, the resolved choice and the recorded classifier call of \<open>chat_handler\<close>.\<close>

definition blank :: "pystr \<Rightarrow> bool" where
  "blank user_query \<longleftrightarrow> user_query = [] \<or> strip user_query = []"

definition resolved :: "pystr \<Rightarrow> pystr \<Rightarrow> pystr" where
  "resolved agent_choice user_query =
     (if agent_choice = AUTO_DETECT then auto_select_agent user_query else agent_choice)"

definition classified :: "pystr \<Rightarrow> pystr \<Rightarrow> state \<Rightarrow> state" where
  "classified agent_choice user_query s =
     (if agent_choice = AUTO_DETECT then record_call (Classify user_query) s else s)"

text \<open>Concrete values for the examples.\<close>

definition example_config :: config where
  "example_config = \<lparr>DATA_GOV_API_KEY = None, CHAT_MODEL = ascii ''models/gemini-pro-latest''\<rparr>"

definition example_agent :: agent where
  "example_agent =
     \<lparr>ident = 1, cls = ascii ''ClimateAgent'', truthy = True,
      has_retrieve_context = True, has_run = True\<rparr>"

definition legacy_agent :: agent where
  "legacy_agent =
     \<lparr>ident = 2, cls = ascii ''SchemeAgent'', truthy = True,
      has_retrieve_context = False, has_run = True\<rparr>"

definition example_env :: env where
  "example_env =
     \<lparr>call_write = (\<lambda>p d. None),
      call_build = (\<lambda>b p. Inr (Some example_agent)),
      call_retrieve_context = (\<lambda>a q. Inr (ascii ''mean temperature 26.1'')),
      call_run = (\<lambda>a q. Inr (ascii ''legacy answer'')),
      call_generate_content = (\<lambda>m p. Inr (Some (ascii ''It is warm.'')))\<rparr>"

definition failing_env :: env where
  "failing_env =
     \<lparr>call_write = (\<lambda>p d. None),
      call_build = (\<lambda>b p. Inl (Exception (ascii ''bad dataset''))),
      call_retrieve_context = (\<lambda>a q. Inl (Exception (ascii ''index unavailable''))),
      call_run = (\<lambda>a q. Inl (Exception (ascii ''index unavailable''))),
      call_generate_content = (\<lambda>m p. Inl (Exception (ascii ''quota exceeded'')))\<rparr>"

definition example_upload :: uploaded where
  "example_upload = \<lparr>file_name = ascii ''/tmp/upload/rain.csv'', file_data = [114, 10]\<rparr>"

definition attribute_env :: env where
  "attribute_env =
     \<lparr>call_write = (\<lambda>p d. None),
      call_build = (\<lambda>b p. Inr (Some example_agent)),
      call_retrieve_context =
        (\<lambda>a q. Inl (AttributeError
           ([39] @ ascii ''NoneType'' @ [39] @ ascii '' object has no attribute '' @
            [39] @ ascii ''invoke'' @ [39]))),
      call_run = (\<lambda>a q. Inr (ascii ''legacy answer'')),
      call_generate_content = (\<lambda>m p. Inr (Some (ascii ''It is warm.'')))\<rparr>"

definition quota_env :: env where
  "quota_env =
     \<lparr>call_write = (\<lambda>p d. None),
      call_build = (\<lambda>b p. Inr (Some example_agent)),
      call_retrieve_context = (\<lambda>a q. Inr (ascii ''mean temperature 26.1'')),
      call_run = (\<lambda>a q. Inr (ascii ''legacy answer'')),
      call_generate_content = (\<lambda>m p. Inl (Exception (ascii ''quota exceeded'')))\<rparr>"

section \<open>Basic facts\<close>

lemmas label_defs = CLIMATE_AGENT_def AGRICULTURE_AGENT_def SCHEME_AGENT_def KCC_AGENT_def
  AUTO_DETECT_def ascii_def

lemmas word_defs = climate_words_def agriculture_words_def scheme_words_def helpline_words_def
  any_word_in_def ascii_def lower_def lower_cp_def

lemma labels_distinct:
  "CLIMATE_AGENT \<noteq> AGRICULTURE_AGENT" "CLIMATE_AGENT \<noteq> SCHEME_AGENT" "CLIMATE_AGENT \<noteq> KCC_AGENT"
  "AGRICULTURE_AGENT \<noteq> SCHEME_AGENT" "AGRICULTURE_AGENT \<noteq> KCC_AGENT" "SCHEME_AGENT \<noteq> KCC_AGENT"
  "AUTO_DETECT \<noteq> CLIMATE_AGENT" "AUTO_DETECT \<noteq> AGRICULTURE_AGENT" "AUTO_DETECT \<noteq> SCHEME_AGENT"
  "AUTO_DETECT \<noteq> KCC_AGENT"
  by (simp_all add: label_defs)

lemmas eval_defs =
  get_agent_def save_upload_def temp_path_of_def cache_key_of_def or_else_def str_truthy_def
  build_choice_def invoke_builder_def store_agent_def is_truthy_def record_call_def
  initial_state_def example_config_def example_agent_def example_env_def failing_env_def
  example_upload_def legacy_agent_def basename_def builds_def writes_def failed_def
  has_builder_def label_defs Let_def

subsection \<open>Frame lemmas\<close>

lemma cache_record_call [simp]: "agent_cache (record_call ev s) = agent_cache s"
  by (simp add: record_call_def)

lemma trace_record_call [simp]: "trace (record_call ev s) = trace s @ [ev]"
  by (simp add: record_call_def)

lemma save_upload_cache [simp]: "agent_cache (snd (save_upload e up s)) = agent_cache s"
  by (simp add: save_upload_def split: option.splits)

lemma save_upload_trace:
  "trace (snd (save_upload e up s)) =
     trace s @ (case up of None \<Rightarrow> [] | Some f \<Rightarrow> [Write (the (temp_path_of up)) (file_data f)])"
  by (simp add: save_upload_def split: option.splits)

lemma save_upload_builds [simp]: "builds (snd (save_upload e up s)) = builds s"
  by (simp add: builds_def save_upload_trace split: option.splits)

lemma save_upload_fst: "fst (save_upload e up s) = fst (save_upload e up s')"
  by (simp add: save_upload_def split: option.splits)

lemma build_choice_cache [simp]:
  "agent_cache (snd (build_choice cfg e c tp s)) = agent_cache s"
  by (simp add: build_choice_def invoke_builder_def)

lemma build_choice_builds:
  "builds (snd (build_choice cfg e c tp s)) = builds s + (if has_builder cfg c then 1 else 0)"
  by (simp add: build_choice_def invoke_builder_def builds_def has_builder_def labels_distinct)

lemma build_choice_no_builder:
  "\<not> has_builder cfg c \<Longrightarrow> build_choice cfg e c tp s = (Inr None, s)"
  by (simp add: build_choice_def has_builder_def)

lemma store_agent_fst [simp]: "fst (store_agent k r) = fst r"
  by (simp add: store_agent_def split: prod.splits sum.splits)

lemma store_agent_builds [simp]: "builds (snd (store_agent k r)) = builds (snd r)"
  by (simp add: store_agent_def builds_def split: prod.splits sum.splits)

lemma store_agent_trace [simp]: "trace (snd (store_agent k r)) = trace (snd r)"
  by (simp add: store_agent_def split: prod.splits sum.splits)

lemma store_agent_cache:
  "agent_cache (snd (store_agent k r)) =
     (if \<not> failed (fst r) then (agent_cache (snd r))(k \<mapsto> the (projr (fst r)))
      else agent_cache (snd r))"
  by (auto simp: store_agent_def failed_def split: prod.splits sum.splits)

text \<open>The three ways a lookup can go.\<close>

lemma get_agent_unfold:
  "get_agent cfg e c up s =
     (case fst (save_upload e up s) of
        Some x \<Rightarrow> (Inl x, snd (save_upload e up s))
      | None \<Rightarrow>
          (case agent_cache s (cache_key_of c (temp_path_of up)) of
             Some a \<Rightarrow> (Inr (Some a), snd (save_upload e up s))
           | None \<Rightarrow>
               store_agent (cache_key_of c (temp_path_of up))
                 (build_choice cfg e c (temp_path_of up) (snd (save_upload e up s)))))"
proof -
  obtain r s1 where eq: "save_upload e up s = (r, s1)"
    by (cases "save_upload e up s")
  have "agent_cache s1 = agent_cache s"
    using save_upload_cache [of e up s] eq by simp
  then show ?thesis
    by (simp add: get_agent_def eq Let_def split: option.splits)
qed

lemma get_agent_raise:
  "fst (save_upload e up s) = Some x \<Longrightarrow>
   get_agent cfg e c up s = (Inl x, snd (save_upload e up s))"
  by (simp add: get_agent_unfold)

lemma get_agent_hit:
  "fst (save_upload e up s) = None \<Longrightarrow> agent_cache s (cache_key_of c (temp_path_of up)) = Some a \<Longrightarrow>
   get_agent cfg e c up s = (Inr (Some a), snd (save_upload e up s))"
  by (simp add: get_agent_unfold)

lemma get_agent_miss:
  "fst (save_upload e up s) = None \<Longrightarrow> agent_cache s (cache_key_of c (temp_path_of up)) = None \<Longrightarrow>
   get_agent cfg e c up s =
     store_agent (cache_key_of c (temp_path_of up))
       (build_choice cfg e c (temp_path_of up) (snd (save_upload e up s)))"
  by (simp add: get_agent_unfold)

lemma get_agent_cases:
  obtains (raise) x where "fst (save_upload e up s) = Some x"
      "get_agent cfg e c up s = (Inl x, snd (save_upload e up s))"
  | (hit) a where "fst (save_upload e up s) = None"
      "agent_cache s (cache_key_of c (temp_path_of up)) = Some a"
      "get_agent cfg e c up s = (Inr (Some a), snd (save_upload e up s))"
  | (miss) "fst (save_upload e up s) = None"
      "agent_cache s (cache_key_of c (temp_path_of up)) = None"
      "get_agent cfg e c up s =
         store_agent (cache_key_of c (temp_path_of up))
           (build_choice cfg e c (temp_path_of up) (snd (save_upload e up s)))"
proof (cases "fst (save_upload e up s)")
  case (Some x)
  then show ?thesis using get_agent_raise raise by blast
next
  case None
  show ?thesis
  proof (cases "agent_cache s (cache_key_of c (temp_path_of up))")
    case N: None
    then show ?thesis using get_agent_miss [OF None N] miss None by blast
  next
    case (Some a)
    then show ?thesis using get_agent_hit [OF None Some] hit None by blast
  qed
qed

text \<open>A lookup never replaces or removes an entry.\<close>

lemma get_agent_keeps:
  assumes "agent_cache s k = Some a"
  shows "agent_cache (snd (get_agent cfg e c up s)) k = Some a"
proof (cases rule: get_agent_cases [where e = e and up = up and s = s and c = c and cfg = cfg])
  case (raise x)
  then show ?thesis using assms by simp
next
  case (hit b)
  then show ?thesis using assms by simp
next
  case miss
  then show ?thesis using assms by (auto simp: store_agent_cache)
qed

lemma get_agent_builds:
  "builds (snd (get_agent cfg e c up s)) =
     builds s +
     (if fst (save_upload e up s) = None \<and> agent_cache s (cache_key_of c (temp_path_of up)) = None \<and>
         has_builder cfg c
      then 1 else 0)"
  by (cases rule: get_agent_cases [where e = e and up = up and s = s and c = c and cfg = cfg])
    (simp_all add: build_choice_builds)

lemma not_failed_has_builder:
  assumes "\<not> failed (fst (build_choice cfg e c tp s))"
  shows "has_builder cfg c"
proof (rule ccontr)
  assume "\<not> has_builder cfg c"
  then have "build_choice cfg e c tp s = (Inr None, s)"
    by (rule build_choice_no_builder)
  with assms show False
    by (simp add: failed_def is_truthy_def)
qed

lemma not_failed_iff: "\<not> failed r \<longleftrightarrow> (\<exists>a. r = Inr (Some a) \<and> truthy a)"
  by (auto simp: failed_def is_truthy_def split: sum.splits option.splits)

subsection \<open>What every reachable state satisfies\<close>

lemma cache_ok_get_agent:
  assumes "cache_ok cfg s"
  shows "cache_ok cfg (snd (get_agent cfg e c up s))"
proof (cases rule: get_agent_cases [where e = e and up = up and s = s and c = c and cfg = cfg])
  case (raise x)
  then show ?thesis using assms by (simp add: cache_ok_def)
next
  case (hit a)
  then show ?thesis using assms by (simp add: cache_ok_def)
next
  case miss
  let ?r = "build_choice cfg e c (temp_path_of up) (snd (save_upload e up s))"
  show ?thesis
  proof (cases "failed (fst ?r)")
    case True
    then have "agent_cache (snd (get_agent cfg e c up s)) = agent_cache s"
      using miss(3) by (simp add: store_agent_cache)
    then show ?thesis using assms by (simp add: cache_ok_def)
  next
    case False
    then have hb: "has_builder cfg c" by (rule not_failed_has_builder)
    obtain a where a: "fst ?r = Inr (Some a)" "truthy a"
      using False by (auto simp: not_failed_iff)
    have "agent_cache (snd (get_agent cfg e c up s)) =
            (agent_cache s)(cache_key_of c (temp_path_of up) \<mapsto> a)"
      using miss(3) False a by (simp add: store_agent_cache)
    then show ?thesis
      using assms hb a(2) unfolding cache_ok_def
      by (metis fun_upd_apply option.inject)
  qed
qed

lemma gemini_answer_cache [simp]:
  "agent_cache (snd (gemini_answer cfg e p ctx s)) = agent_cache s"
  by (simp add: gemini_answer_def gemini_try_def split: sum.splits)

lemma retrieve_try_cache [simp]:
  "agent_cache (snd (retrieve_try e a q s)) = agent_cache s"
  by (simp add: retrieve_try_def invoke_retrieve_context_def invoke_run_def)

lemma chat_handler_unfold:
  "chat_handler cfg e q c up h s =
     (if blank q then (Inr (h, []), s)
      else
        (let r = get_agent cfg e (resolved c q) up (classified c q s) in
         case fst r of
           Inl x \<Rightarrow> (Inl x, snd r)
         | Inr qa \<Rightarrow>
             if \<not> is_truthy qa then
               (Inr (h @ [(q, ERROR_MARK @ ascii '' Failed to initialize '' @ resolved c q)], []),
                snd r)
             else
               (let t = retrieve_try e (the qa) q (snd r) in
                case fst t of
                  Inl x \<Rightarrow>
                    (Inr (h @ [(q, ERROR_MARK @ ascii '' Error retrieving context: '' @ str_exn x)],
                          []), snd t)
                | Inr ctx \<Rightarrow>
                    (let g = gemini_answer cfg e q ctx (snd t) in
                     case fst g of
                       Inl x \<Rightarrow> (Inl x, snd g)
                     | Inr answer \<Rightarrow> (Inr (h @ [(q, answer)], []), snd g)))))"
  by (simp add: chat_handler_def blank_def resolved_def classified_def Let_def
      split: prod.splits sum.splits)

lemma classified_cache [simp]: "agent_cache (classified c q s) = agent_cache s"
  by (simp add: classified_def)

lemma chat_handler_cache:
  "agent_cache (snd (chat_handler cfg e q c up h s)) =
     (if blank q then agent_cache s
      else agent_cache (snd (get_agent cfg e (resolved c q) up (classified c q s))))"
  by (simp add: chat_handler_unfold Let_def split: sum.splits)

lemma cache_ok_chat_handler:
  assumes "cache_ok cfg s"
  shows "cache_ok cfg (snd (chat_handler cfg e q c up h s))"
proof (cases "blank q")
  case True
  then show ?thesis using assms by (simp add: chat_handler_unfold)
next
  case False
  have "cache_ok cfg (classified c q s)"
    using assms by (simp add: cache_ok_def)
  then have "cache_ok cfg (snd (get_agent cfg e (resolved c q) up (classified c q s)))"
    by (rule cache_ok_get_agent)
  then show ?thesis
    using False by (simp add: cache_ok_def chat_handler_cache)
qed

lemma reachable_cache_ok: "reachable cfg s \<Longrightarrow> cache_ok cfg s"
proof (induction rule: reachable.induct)
  case start
  show ?case by (simp add: cache_ok_def initial_state_def)
next
  case (recorded s ev)
  then show ?case by (simp add: cache_ok_def)
next
  case (lookup s e agent_choice uploaded_file)
  then show ?case by (simp add: cache_ok_get_agent)
next
  case (chat s e user_query agent_choice uploaded_file chat_history)
  then show ?case by (simp add: cache_ok_chat_handler)
qed



subsection \<open>The guard of the chat handler\<close>

lemma strip_empty_iff: "strip q = [] \<longleftrightarrow> (\<forall>c\<in>set q. isspace c)"
proof
  assume "strip q = []"
  then have all: "\<forall>c\<in>set (dropWhile isspace q). isspace c"
    by (simp add: strip_def dropWhile_eq_Nil_conv)
  have "dropWhile isspace q = []"
  proof (rule ccontr)
    assume ne: "dropWhile isspace q \<noteq> []"
    then have "\<not> isspace (hd (dropWhile isspace q))" by (rule hd_dropWhile)
    moreover have "hd (dropWhile isspace q) \<in> set (dropWhile isspace q)"
      using ne by simp
    ultimately show False using all by blast
  qed
  then show "\<forall>c\<in>set q. isspace c"
    by (simp add: dropWhile_eq_Nil_conv)
next
  assume "\<forall>c\<in>set q. isspace c"
  then have d: "dropWhile isspace q = []"
    by (simp add: dropWhile_eq_Nil_conv)
  show "strip q = []"
    unfolding strip_def d by simp
qed

lemma blank_iff: "blank q \<longleftrightarrow> (\<forall>c\<in>set q. isspace c)"
  by (auto simp: blank_def strip_empty_iff)

subsection \<open>The answer synthesiser and the handler's history\<close>

lemma gemini_answer_eq:
  "gemini_answer cfg e p ctx s =
     (Inr (case call_generate_content e (CHAT_MODEL cfg) (full_prompt p ctx) of
             Inl x \<Rightarrow> ERROR_MARK @ ascii '' Error: '' @ str_exn x
           | Inr t \<Rightarrow> or_else t NO_RESPONSE),
      record_call (Generate (CHAT_MODEL cfg) (full_prompt p ctx)) s)"
  by (simp add: gemini_answer_def gemini_try_def split: sum.splits)

lemma or_else_nonempty: "d \<noteq> [] \<Longrightarrow> or_else t d \<noteq> []"
  by (cases t) (simp_all add: or_else_def str_truthy_def)

lemma NO_RESPONSE_nonempty: "NO_RESPONSE \<noteq> []"
  by (simp add: NO_RESPONSE_def)

lemma ERROR_MARK_nonempty: "ERROR_MARK \<noteq> []"
  by (simp add: ERROR_MARK_def)

lemma gemini_answer_nonempty:
  "fst (gemini_answer cfg e p ctx s) = Inr answer \<Longrightarrow> answer \<noteq> []"
  by (auto simp: gemini_answer_eq or_else_nonempty NO_RESPONSE_nonempty ERROR_MARK_nonempty
      split: sum.splits)

lemma chat_handler_history:
  assumes "fst (chat_handler cfg e q c up h s) = Inr (h', out)"
  shows "out = [] \<and> (h' = h \<or> (\<exists>answer. h' = h @ [(q, answer)] \<and> answer \<noteq> []))"
proof (cases "blank q")
  case True
  then show ?thesis using assms by (simp add: chat_handler_unfold)
next
  case False
  let ?r = "get_agent cfg e (resolved c q) up (classified c q s)"
  show ?thesis
  proof (cases "fst ?r")
    case (Inl x)
    then show ?thesis using assms False by (simp add: chat_handler_unfold)
  next
    case (Inr qa)
    show ?thesis
    proof (cases "is_truthy qa")
      case no: False
      then show ?thesis
        using assms False Inr by (auto simp: chat_handler_unfold ERROR_MARK_nonempty)
    next
      case yes: True
      let ?t = "retrieve_try e (the qa) q (snd ?r)"
      show ?thesis
      proof (cases "fst ?t")
        case (Inl x)
        then show ?thesis
          using assms False Inr yes by (auto simp: chat_handler_unfold ERROR_MARK_nonempty)
      next
        case ctx: (Inr ctx)
        obtain answer where g: "fst (gemini_answer cfg e q ctx (snd ?t)) = Inr answer"
          by (simp add: gemini_answer_eq)
        then have "answer \<noteq> []" by (rule gemini_answer_nonempty)
        then show ?thesis
          using assms False Inr yes ctx g by (auto simp: chat_handler_unfold)
      qed
    qed
  qed
qed

lemma classified_builds [simp]: "builds (classified c q s) = builds s"
  by (simp add: classified_def builds_def)

lemma save_upload_fst_classified [simp]:
  "fst (save_upload e up (classified c q s)) = fst (save_upload e up s)"
  by (rule save_upload_fst)

lemma save_upload_eq:
  "save_upload e up s =
     (fst (save_upload e up s),
      s\<lparr>trace := trace s @
        (case up of None \<Rightarrow> [] | Some f \<Rightarrow> [Write (the (temp_path_of up)) (file_data f)])\<rparr>)"
  by (simp add: save_upload_def record_call_def split: option.splits)

section \<open>The domain classifier\<close>






section \<open>The agent cache\<close>



text \<open>
  Claim C7. In a reachable state, a lookup whose upload was written and which then
  fails (a builder raises, or the result is \<open>None\<close> or falsy, as for the KCC agent without
  its key) leaves the cache as it was, with nothing under the key; the next lookup with
  the same key, once its upload is written, goes through the builder chain again, and
  calls a builder whenever the choice has one.
\<close>

theorem failed_build_not_cached:
  assumes staged1: "fst (save_upload e1 up1 s) = None"
    and inv: "reachable cfg s"
    and first: "get_agent cfg e1 c up1 s = (r1, s1)"
    and bad: "failed r1"
    and same: "temp_path_of up2 = temp_path_of up1"
    and staged2: "fst (save_upload e2 up2 s1) = None"
  shows "agent_cache s1 = agent_cache s \<and>
         agent_cache s1 (cache_key_of c (temp_path_of up1)) = None \<and>
         get_agent cfg e2 c up2 s1 =
           store_agent (cache_key_of c (temp_path_of up2))
             (build_choice cfg e2 c (temp_path_of up2) (snd (save_upload e2 up2 s1))) \<and>
         builds (snd (get_agent cfg e2 c up2 s1)) =
           builds s1 + (if has_builder cfg c then 1 else 0)"
proof -
  let ?k = "cache_key_of c (temp_path_of up1)"
  have ok: "cache_ok cfg s" using inv by (rule reachable_cache_ok)
  have facts: "agent_cache s ?k = None \<and> agent_cache s1 = agent_cache s"
  proof (cases rule: get_agent_cases [where e = e1 and up = up1 and s = s and c = c and cfg = cfg])
    case (raise x)
    then show ?thesis using staged1 by simp
  next
    case (hit a)
    then have "r1 = Inr (Some a)" using first by simp
    moreover have "truthy a" using ok hit(2) by (auto simp: cache_ok_def)
    ultimately show ?thesis using bad by (simp add: failed_def is_truthy_def)
  next
    case miss
    then have "r1 = fst (build_choice cfg e1 c (temp_path_of up1) (snd (save_upload e1 up1 s)))"
      and "s1 = snd (store_agent ?k (build_choice cfg e1 c (temp_path_of up1) (snd (save_upload e1 up1 s))))"
      using first by (simp_all add: prod_eq_iff)
    then show ?thesis using bad miss(2) by (simp add: store_agent_cache)
  qed
  then have none2: "agent_cache s1 (cache_key_of c (temp_path_of up2)) = None"
    by (simp add: same)
  have again: "get_agent cfg e2 c up2 s1 =
           store_agent (cache_key_of c (temp_path_of up2))
             (build_choice cfg e2 c (temp_path_of up2) (snd (save_upload e2 up2 s1)))"
    using staged2 none2 by (rule get_agent_miss)
  have "builds (snd (get_agent cfg e2 c up2 s1)) = builds s1 + (if has_builder cfg c then 1 else 0)"
    using staged2 none2 by (simp add: get_agent_builds)
  with facts again show ?thesis by simp
qed

text \<open>
  Claim C7 at the climate agent: the builder raises in the first lookup and returns an
  agent in the second.
\<close>

theorem failed_build_not_cached_witness:
  "fst (save_upload failing_env None initial_state) = None \<and>
   failed (fst (get_agent example_config failing_env CLIMATE_AGENT None initial_state)) \<and>
   agent_cache (snd (get_agent example_config failing_env CLIMATE_AGENT None initial_state)) =
     agent_cache initial_state \<and>
   fst (get_agent example_config example_env CLIMATE_AGENT None
         (snd (get_agent example_config failing_env CLIMATE_AGENT None initial_state))) =
     Inr (Some example_agent) \<and>
   builds (snd (get_agent example_config example_env CLIMATE_AGENT None
         (snd (get_agent example_config failing_env CLIMATE_AGENT None initial_state)))) =
     builds (snd (get_agent example_config failing_env CLIMATE_AGENT None initial_state)) + 1"
proof -
  let ?r1 = "get_agent example_config failing_env CLIMATE_AGENT None initial_state"
  have st1: "fst (save_upload failing_env None initial_state) = None"
    by (simp add: save_upload_def)
  have st2: "fst (save_upload example_env None (snd ?r1)) = None"
    by (simp add: save_upload_def)
  have bad: "failed (fst ?r1)"
    by (simp add: eval_defs)
  have hb: "has_builder example_config CLIMATE_AGENT"
    by (simp add: has_builder_def)
  have ev: "fst (store_agent (cache_key_of CLIMATE_AGENT (temp_path_of None))
             (build_choice example_config example_env CLIMATE_AGENT (temp_path_of None)
               (snd (save_upload example_env None (snd ?r1))))) = Inr (Some example_agent)"
    by (simp add: build_choice_def invoke_builder_def example_env_def)
  have first: "?r1 = (fst ?r1, snd ?r1)"
    by simp
  from failed_build_not_cached [OF st1 reachable.start first bad refl st2] st1 bad hb ev
  show ?thesis by (simp add: build_choice_builds)
qed

text \<open>
  What a cache hit does: the stored agent is returned, the cache is unchanged and no
  builder is called; but the uploaded file, when there is one, has been written once
  more, since \<open>get_agent\<close> writes it before it computes the key.
\<close>

lemma get_agent_hit_effects:
  assumes "agent_cache s (cache_key_of agent_choice (temp_path_of uploaded_file)) = Some a"
    and "fst (save_upload e uploaded_file s) = None"
  shows "get_agent cfg e agent_choice uploaded_file s =
           (Inr (Some a),
            s\<lparr>trace := trace s @
              (case uploaded_file of
                 None \<Rightarrow> []
               | Some f \<Rightarrow> [Write (the (temp_path_of uploaded_file)) (file_data f)])\<rparr>) \<and>
         agent_cache (snd (get_agent cfg e agent_choice uploaded_file s)) = agent_cache s \<and>
         builds (snd (get_agent cfg e agent_choice uploaded_file s)) = builds s \<and>
         writes (snd (get_agent cfg e agent_choice uploaded_file s)) =
           writes s + (case uploaded_file of None \<Rightarrow> 0 | Some f \<Rightarrow> 1)"
proof -
  let ?s' = "s\<lparr>trace := trace s @
              (case uploaded_file of
                 None \<Rightarrow> []
               | Some f \<Rightarrow> [Write (the (temp_path_of uploaded_file)) (file_data f)])\<rparr>"
  have "snd (save_upload e uploaded_file s) = ?s'"
    using save_upload_eq [of e uploaded_file s] by (metis snd_conv)
  moreover have "get_agent cfg e agent_choice uploaded_file s =
      (Inr (Some a), snd (save_upload e uploaded_file s))"
    using assms(2) assms(1) by (rule get_agent_hit)
  ultimately have eq: "get_agent cfg e agent_choice uploaded_file s = (Inr (Some a), ?s')"
    by simp
  have c: "agent_cache ?s' = agent_cache s"
    by simp
  have b: "builds ?s' = builds s"
    by (simp add: builds_def split: option.splits)
  have w: "writes ?s' = writes s + (case uploaded_file of None \<Rightarrow> 0 | Some f \<Rightarrow> 1)"
    by (simp add: writes_def split: option.splits)
  show ?thesis
    unfolding eq snd_conv using c b w by simp
qed




section \<open>The chat handler\<close>

text \<open>
  Claim C10. When every code point of the query is whitespace (in particular when the
  query is empty), the chat handler returns the history as it was and leaves the state
  as it was: no classifier call, no write, no builder call, no retrieval call and no
  generation call is recorded, and the cache is untouched, whatever the outside world
  would have done.
\<close>

theorem chat_handler_blank_query:
  assumes "\<forall>c\<in>set user_query. isspace c"
  shows "chat_handler cfg e user_query agent_choice uploaded_file chat_history s =
           (Inr (chat_history, []), s)"
  using assms by (simp add: chat_handler_unfold blank_iff)

text \<open>Claim C10 at a query of a space, a tab, an ideographic space and a newline.\<close>

theorem chat_handler_blank_query_witness:
  "isspace 32 \<and> isspace 9 \<and> isspace 0x3000 \<and> isspace 10 \<and>
   chat_handler example_config failing_env [32, 9, 0x3000, 10] AUTO_DETECT (Some example_upload)
     [(ascii ''hi'', ascii ''hello'')] initial_state =
     (Inr ([(ascii ''hi'', ascii ''hello'')], []), initial_state)"
proof -
  have h: "\<forall>c\<in>set [32, 9, 0x3000, 10]. isspace c"
    by (simp add: isspace_def)
  have sp: "isspace 32 \<and> isspace 9 \<and> isspace 0x3000 \<and> isspace 10"
    by (simp add: isspace_def)
  from chat_handler_blank_query [OF h] sp show ?thesis by simp
qed

text \<open>
  Claim C6. \<open>gemini_answer\<close> always returns, and what it returns is not empty: the marked
  error text when the generation service raised, the fixed message when the service
  returned \<open>None\<close> or the empty string, the service's text otherwise. When a handler run
  gets as far as the generation call and the service raises there, the handler returns
  the history with exactly one more turn, whose answer is the marked error text. And
  whenever the handler returns, the history is the old one, or the old one with one more
  turn whose answer is not empty.
\<close>

theorem gemini_answer_never_raises:
  "(\<exists>answer. fst (gemini_answer cfg e prompt ctx s) = Inr answer \<and> answer \<noteq> [] \<and>
      (case call_generate_content e (CHAT_MODEL cfg) (full_prompt prompt ctx) of
         Inl x \<Rightarrow> answer = ERROR_MARK @ ascii '' Error: '' @ str_exn x
       | Inr t \<Rightarrow> answer = (if str_truthy t then the t else NO_RESPONSE))) \<and>
   (\<not> blank user_query \<and>
    get_agent cfg e (resolved agent_choice user_query) uploaded_file
      (classified agent_choice user_query s) = (Inr (Some a), s') \<and>
    truthy a \<and> retrieve_try e a user_query s' = (Inr ctx, s'') \<and>
    call_generate_content e (CHAT_MODEL cfg) (full_prompt user_query ctx) = Inl x \<longrightarrow>
      fst (chat_handler cfg e user_query agent_choice uploaded_file chat_history s) =
        Inr (chat_history @ [(user_query, ERROR_MARK @ ascii '' Error: '' @ str_exn x)], [])) \<and>
   (\<forall>h' out. fst (chat_handler cfg e user_query agent_choice uploaded_file chat_history s) =
        Inr (h', out) \<longrightarrow>
      h' = chat_history \<or>
      (\<exists>answer. h' = chat_history @ [(user_query, answer)] \<and> answer \<noteq> []))"
proof (intro conjI)
  show "\<exists>answer. fst (gemini_answer cfg e prompt ctx s) = Inr answer \<and> answer \<noteq> [] \<and>
      (case call_generate_content e (CHAT_MODEL cfg) (full_prompt prompt ctx) of
         Inl x \<Rightarrow> answer = ERROR_MARK @ ascii '' Error: '' @ str_exn x
       | Inr t \<Rightarrow> answer = (if str_truthy t then the t else NO_RESPONSE))"
    by (auto simp: gemini_answer_eq or_else_def or_else_nonempty NO_RESPONSE_nonempty
        ERROR_MARK_nonempty str_truthy_def split: sum.splits option.splits)
next
  show "\<not> blank user_query \<and>
    get_agent cfg e (resolved agent_choice user_query) uploaded_file
      (classified agent_choice user_query s) = (Inr (Some a), s') \<and>
    truthy a \<and> retrieve_try e a user_query s' = (Inr ctx, s'') \<and>
    call_generate_content e (CHAT_MODEL cfg) (full_prompt user_query ctx) = Inl x \<longrightarrow>
      fst (chat_handler cfg e user_query agent_choice uploaded_file chat_history s) =
        Inr (chat_history @ [(user_query, ERROR_MARK @ ascii '' Error: '' @ str_exn x)], [])"
    by (simp add: chat_handler_unfold is_truthy_def gemini_answer_eq)
next
  show "\<forall>h' out. fst (chat_handler cfg e user_query agent_choice uploaded_file chat_history s) =
        Inr (h', out) \<longrightarrow>
      h' = chat_history \<or>
      (\<exists>answer. h' = chat_history @ [(user_query, answer)] \<and> answer \<noteq> [])"
    using chat_handler_history by blast
qed

text \<open>
  Claim C6 at the query \<open>Will it rain?\<close> from the start state, with a generation service
  that raises \<open>quota exceeded\<close>.
\<close>

theorem gemini_answer_never_raises_witness:
  "\<not> blank (ascii ''Will it rain?'') \<and>
   fst (get_agent example_config quota_env (resolved AUTO_DETECT (ascii ''Will it rain?'')) None
         (classified AUTO_DETECT (ascii ''Will it rain?'') initial_state)) =
     Inr (Some example_agent) \<and>
   truthy example_agent \<and>
   call_generate_content quota_env (CHAT_MODEL example_config)
     (full_prompt (ascii ''Will it rain?'') (ascii ''mean temperature 26.1'')) =
     Inl (Exception (ascii ''quota exceeded'')) \<and>
   fst (chat_handler example_config quota_env (ascii ''Will it rain?'') AUTO_DETECT None []
         initial_state) =
     Inr ([(ascii ''Will it rain?'', ERROR_MARK @ ascii '' Error: quota exceeded'')], [])"
proof -
  let ?q = "ascii ''Will it rain?''"
  let ?r = "get_agent example_config quota_env (resolved AUTO_DETECT ?q) None
         (classified AUTO_DETECT ?q initial_state)"
  let ?t = "retrieve_try quota_env example_agent ?q (snd ?r)"
  have nb: "\<not> blank ?q"
    by (simp add: blank_def strip_def isspace_def ascii_def)
  have sel: "resolved AUTO_DETECT ?q = CLIMATE_AGENT"
    by (simp add: resolved_def auto_select_agent_def word_defs)
  have fr: "fst ?r = Inr (Some example_agent)"
    unfolding sel by (simp add: eval_defs quota_env_def classified_def)
  have r: "?r = (Inr (Some example_agent), snd ?r)"
    using fr by (simp add: prod_eq_iff)
  have ta: "truthy example_agent"
    by (simp add: example_agent_def)
  have ft: "fst ?t = Inr (ascii ''mean temperature 26.1'')"
    by (simp add: retrieve_try_def invoke_retrieve_context_def example_agent_def quota_env_def)
  have t: "?t = (Inr (ascii ''mean temperature 26.1''), snd ?t)"
    using ft by (simp add: prod_eq_iff)
  have g: "call_generate_content quota_env (CHAT_MODEL example_config)
     (full_prompt ?q (ascii ''mean temperature 26.1'')) = Inl (Exception (ascii ''quota exceeded''))"
    by (simp add: quota_env_def)
  have "fst (chat_handler example_config quota_env ?q AUTO_DETECT None [] initial_state) =
      Inr ([] @ [(?q, ERROR_MARK @ ascii '' Error: '' @ str_exn (Exception (ascii ''quota exceeded'')))], [])"
    using gemini_answer_never_raises [where cfg = example_config and e = quota_env and user_query = "?q"
        and agent_choice = AUTO_DETECT and uploaded_file = None and s = initial_state
        and a = example_agent and s' = "snd ?r" and s'' = "snd ?t"
        and ctx = "ascii ''mean temperature 26.1''"
        and x = "Exception (ascii ''quota exceeded'')" and chat_history = "[]"]
      nb r ta t g by blast
  then have "fst (chat_handler example_config quota_env ?q AUTO_DETECT None [] initial_state) =
      Inr ([(?q, ERROR_MARK @ ascii '' Error: quota exceeded'')], [])"
    by (simp add: ascii_def)
  with nb fr ta g show ?thesis by blast
qed

section \<open>Context retrieval in the two front ends\<close>

text \<open>
  In app.py the handler asks \<open>hasattr\<close> first: an agent with \<open>retrieve_context\<close> is asked
  through it and through nothing else, an agent with \<open>run\<close> only is asked through \<open>run\<close>,
  what comes back is the context the prompt is built from, and an exception of either
  call becomes a turn with the error text.
\<close>

lemma retrieve_try_structured:
  "has_retrieve_context a \<Longrightarrow>
   retrieve_try e a q s =
     (call_retrieve_context e a q, record_call (RetrieveContext (ident a) q) s)"
  by (simp add: retrieve_try_def invoke_retrieve_context_def)

lemma retrieve_try_legacy:
  "\<not> has_retrieve_context a \<Longrightarrow> has_run a \<Longrightarrow>
   retrieve_try e a q s = (call_run e a q, record_call (Run (ident a) q) s)"
  by (simp add: retrieve_try_def invoke_run_def)

lemma chat_handler_retrieval_error:
  assumes "\<not> blank q"
    and "get_agent cfg e (resolved c q) up (classified c q s) = (Inr (Some a), s')"
    and "truthy a"
    and "retrieve_try e a q s' = (Inl x, s'')"
  shows "chat_handler cfg e q c up h s =
           (Inr (h @ [(q, ERROR_MARK @ ascii '' Error retrieving context: '' @ str_exn x)], []),
            s'')"
  using assms by (simp add: chat_handler_unfold is_truthy_def)

lemma chat_handler_context_used:
  assumes "\<not> blank q"
    and "get_agent cfg e (resolved c q) up (classified c q s) = (Inr (Some a), s')"
    and "truthy a"
    and "retrieve_try e a q s' = (Inr ctx, s'')"
  shows "snd (chat_handler cfg e q c up h s) =
           record_call (Generate (CHAT_MODEL cfg) (full_prompt q ctx)) s''"
  using assms by (simp add: chat_handler_unfold is_truthy_def gemini_answer_eq)

text \<open>
  In main_app.py a returned context is used as it is, and an agent without
  \<open>retrieve_context\<close> is asked through \<open>run\<close>.
\<close>

lemma main_app_retrieve_returned:
  "has_retrieve_context a \<Longrightarrow> call_retrieve_context e a q = Inr ctx \<Longrightarrow>
   main_app_retrieve e a q s = (Inr ctx, record_call (RetrieveContext (ident a) q) s)"
  by (simp add: main_app_retrieve_def invoke_retrieve_context_def)

lemma main_app_retrieve_legacy:
  "\<not> has_retrieve_context a \<Longrightarrow> has_run a \<Longrightarrow>
   main_app_retrieve e a q s = (call_run e a q, record_call (Run (ident a) q) s)"
  by (simp add: main_app_retrieve_def invoke_retrieve_context_def invoke_run_def)

text \<open>
  Where the two front ends part: an exception of \<open>retrieve_context\<close>. If it is an
  \<open>AttributeError\<close>, main_app.py goes on to \<open>run\<close>; if it is anything else, main_app.py
  lets it pass.
\<close>

lemma main_app_retrieve_attribute_error:
  "has_retrieve_context a \<Longrightarrow> call_retrieve_context e a q = Inl (AttributeError m) \<Longrightarrow>
   main_app_retrieve e a q s = invoke_run e a q (record_call (RetrieveContext (ident a) q) s)"
  by (simp add: main_app_retrieve_def invoke_retrieve_context_def)

lemma main_app_retrieve_other_error:
  "has_retrieve_context a \<Longrightarrow> call_retrieve_context e a q = Inl x \<Longrightarrow>
   \<forall>m. x \<noteq> AttributeError m \<Longrightarrow>
   main_app_retrieve e a q s = (Inl x, record_call (RetrieveContext (ident a) q) s)"
  by (cases x) (simp_all add: main_app_retrieve_def invoke_retrieve_context_def)

text \<open>
  Claim C4 (an agent that has \<open>retrieve_context\<close> is asked through it and through nothing
  else) does not hold of main_app.py: when \<open>retrieve_context\<close> itself raises an
  \<open>AttributeError\<close>, the handler of main_app.py takes the agent for one without the
  method, calls \<open>run\<close> as well, and uses what \<open>run\<close> returns as the context.
\<close>

theorem main_app_retrieve_masks_attribute_error:
  "has_retrieve_context example_agent \<and>
   main_app_retrieve attribute_env example_agent (ascii ''rice yield'') initial_state =
     (Inr (ascii ''legacy answer''),
      \<lparr>agent_cache = Map.empty,
       trace = [RetrieveContext 1 (ascii ''rice yield''), Run 1 (ascii ''rice yield'')]\<rparr>)"
  by (simp add: main_app_retrieve_def invoke_retrieve_context_def invoke_run_def
      attribute_env_def example_agent_def initial_state_def record_call_def)

text \<open>
  Claim C5 (an exception of either retrieval call is caught and turned into an error
  text) does not hold of main_app.py: an exception of \<open>retrieve_context\<close> other than
  \<open>AttributeError\<close>, and any exception of \<open>run\<close>, leaves the retrieval step as it was
  raised.
\<close>

theorem main_app_retrieve_propagates:
  "main_app_retrieve failing_env example_agent (ascii ''rice yield'') initial_state =
     (Inl (Exception (ascii ''index unavailable'')),
      \<lparr>agent_cache = Map.empty, trace = [RetrieveContext 1 (ascii ''rice yield'')]\<rparr>) \<and>
   main_app_retrieve failing_env legacy_agent (ascii ''rice yield'') initial_state =
     (Inl (Exception (ascii ''index unavailable'')),
      \<lparr>agent_cache = Map.empty, trace = [Run 2 (ascii ''rice yield'')]\<rparr>)"
  by (simp add: main_app_retrieve_def invoke_retrieve_context_def invoke_run_def
      failing_env_def example_agent_def legacy_agent_def initial_state_def record_call_def)

end
